theory Spec2Isabelle
  imports Main "HOL-Library.AList" "HOL-Library.Char_ord" "HOL-Library.List_Lexorder"
begin

section \<open>Python values\<close>

text \<open>
  The credential file and the domain table are YAML documents, so the values the program
  handles are the Python objects of the standard YAML tags: \<open>None\<close>, booleans, integers,
  strings, lists and dictionaries. A dictionary is an association list in insertion order;
  every key the program looks up or assigns is a \<open>str\<close>, and a \<open>str\<close> key is equal to no
  key of another type, so the lookup compares keys structurally.
\<close>

datatype pyval =
    PNone
  | PBool bool
  | PInt int
  | PStr string
  | PList "pyval list"
  | PDict "(pyval \<times> pyval) list"

text \<open>Truth value of an object, as \<open>not x\<close> and \<open>if x\<close> take it.\<close>

fun truthy :: "pyval \<Rightarrow> bool" where
  "truthy PNone = False"
| "truthy (PBool b) = b"
| "truthy (PInt i) = (i \<noteq> 0)"
| "truthy (PStr s) = (s \<noteq> [])"
| "truthy (PList xs) = (xs \<noteq> [])"
| "truthy (PDict kvs) = (kvs \<noteq> [])"

section \<open>Exceptions\<close>

text \<open>
  The module declares \<open>MailSenderException\<close> and its subclass
  \<open>MailSenderUnsupportedException\<close>; both carry the constructor's arguments (a wrapped
  exception, a message). The other constructors are the exceptions of the interpreter and
  of the libraries that the module lets through; no handler of the module catches
  \<open>ValueError\<close>, so its subclass \<open>UnicodeDecodeError\<close> stands beside it.
\<close>

datatype error =
    MailSenderException "exc_arg list"
  | MailSenderUnsupportedException "exc_arg list"
  | OSError
  | YAMLError
  | ValueError
  | UnicodeDecodeError
  | TypeError
  | AttributeError
  | ModuleNotFoundError
  | OtherError string
and exc_arg = ArgErr error | ArgStr string

text \<open>\<open>isinstance(e, MailSenderException)\<close>: the class or its subclass.\<close>

fun is_MailSenderException :: "error \<Rightarrow> bool" where
  "is_MailSenderException (MailSenderException _) = True"
| "is_MailSenderException (MailSenderUnsupportedException _) = True"
| "is_MailSenderException _ = False"

section \<open>Operations on objects\<close>

text \<open>\<open>obj.get(key, default)\<close> with a \<open>str\<close> key: only a dictionary has the method.\<close>

fun py_get :: "pyval \<Rightarrow> string \<Rightarrow> pyval \<Rightarrow> error + pyval" where
  "py_get (PDict kvs) key dflt =
     Inr (case map_of kvs (PStr key) of None \<Rightarrow> dflt | Some v \<Rightarrow> v)"
| "py_get _ key dflt = Inl AttributeError"

text \<open>
  \<open>isinstance(obj, dict)\<close>, and \<open>obj[key] = value\<close> with a \<open>str\<close> key: a dictionary replaces the value of an existing
  key in place and appends a new key; every other object raises \<open>TypeError\<close>.
\<close>

fun is_dict :: "pyval \<Rightarrow> bool" where
  "is_dict (PDict kvs) = True"
| "is_dict _ = False"

fun py_setitem :: "pyval \<Rightarrow> string \<Rightarrow> pyval \<Rightarrow> error + pyval" where
  "py_setitem (PDict kvs) key v = Inr (PDict (AList.update (PStr key) v kvs))"
| "py_setitem _ key v = Inl TypeError"

text \<open>\<open>':' in obj\<close>: substring test on a string, membership on a list, key test on a
  dictionary; the other objects are not iterable.\<close>

fun py_contains_colon :: "pyval \<Rightarrow> error + bool" where
  "py_contains_colon (PStr s) = Inr (CHR '':'' \<in> set s)"
| "py_contains_colon (PList xs) = Inr (PStr '':'' \<in> set xs)"
| "py_contains_colon (PDict kvs) = Inr (PStr '':'' \<in> fst ` set kvs)"
| "py_contains_colon _ = Inl TypeError"

text \<open>\<open>s.split(sep, maxsplit)\<close> for a separator of one character.\<close>

fun py_split :: "char \<Rightarrow> nat \<Rightarrow> string \<Rightarrow> string list" where
  "py_split sep 0 s = [s]"
| "py_split sep (Suc n) s =
     (if sep \<in> set s
      then takeWhile (\<lambda>c. c \<noteq> sep) s # py_split sep n (tl (dropWhile (\<lambda>c. c \<noteq> sep) s))
      else [s])"

text \<open>\<open>posixpath.split\<close>: the head is everything before the last slash, without its
  trailing slashes unless it consists of slashes only.\<close>

definition path_split :: "string \<Rightarrow> string \<times> string" where
  "path_split p =
     (let tail = rev (takeWhile (\<lambda>c. c \<noteq> CHR ''/'') (rev p));
          head = take (length p - length tail) p
      in (if head \<noteq> [] \<and> \<not> (\<forall>c \<in> set head. c = CHR ''/'')
          then rev (dropWhile (\<lambda>c. c = CHR ''/'') (rev head))
          else head,
          tail))"


section \<open>What a dump loads back as\<close>

text \<open>
  \<open>yaml.safe_dump\<close> writes the items of every mapping in the order of \<open>sorted\<close>, which
  compares the keys: strings by their characters, integers and booleans by their value. When
  two keys cannot be compared \<open>sorted\<close> raises \<open>TypeError\<close> and the dump keeps the
  insertion order. Loading the dump gives the mappings in the order written.
\<close>

fun is_str :: "pyval \<Rightarrow> bool" where
  "is_str (PStr s) = True"
| "is_str _ = False"

fun is_int :: "pyval \<Rightarrow> bool" where
  "is_int (PInt i) = True"
| "is_int (PBool b) = True"
| "is_int _ = False"

fun str_of :: "pyval \<Rightarrow> string" where
  "str_of (PStr s) = s"
| "str_of _ = []"

fun int_of :: "pyval \<Rightarrow> int" where
  "int_of (PInt i) = i"
| "int_of (PBool b) = (if b then 1 else 0)"
| "int_of _ = 0"

definition sort_items :: "(pyval \<times> pyval) list \<Rightarrow> (pyval \<times> pyval) list" where
  "sort_items kvs =
     (if list_all (\<lambda>kv. is_str (fst kv)) kvs then sort_key (\<lambda>kv. str_of (fst kv)) kvs
      else if list_all (\<lambda>kv. is_int (fst kv)) kvs then sort_key (\<lambda>kv. int_of (fst kv)) kvs
      else kvs)"

text \<open>\<open>yaml.load(yaml.safe_dump(v))\<close> for an object of the standard tags.\<close>

fun dumped :: "pyval \<Rightarrow> pyval" where
  "dumped (PList xs) = PList (map dumped xs)"
| "dumped (PDict kvs) = PDict (sort_items (map (\<lambda>(k, v). (k, dumped v)) kvs))"
| "dumped v = v"

section \<open>The file system and the environment of the process\<close>

text \<open>
  A file is known by what reading it in text mode and \<open>yaml.load\<close> make of its bytes: the
  bytes do not decode (\<open>UnicodeDecodeError\<close>), the parser raises, or it returns an object.
  An empty file loads as \<open>None\<close>. \<open>perm\<close> is the mode of the file.
\<close>

datatype content = Undecodable | Garbage | Document pyval

record file_node =
  perm :: nat
  content :: content

type_synonym filesystem = "string \<Rightarrow> file_node option"

text \<open>
  \<open>os.write\<close> raises, writes all the bytes, or writes the first bytes only and returns
  their number, which \<open>_update_creds\<close> does not look at; \<open>WriteShort c\<close> says what the
  bytes that were written amount to.
\<close>

datatype write_outcome = WriteRaises | WriteAll | WriteShort content

text \<open>
  What the process cannot control is a parameter: the environment variables, the default
  path (computed by \<open>platformdirs\<close> at import), and for each system call how it ends on a
  given path.
\<close>

record os =
  environ :: "(string \<times> string) list"
  DEFAULT_CREDS_FILE :: string
  makedirs_fails :: "string \<Rightarrow> bool"
  open_fails :: "string \<Rightarrow> bool"
  os_open_fails :: "string \<Rightarrow> bool"
  os_write_outcome :: "string \<Rightarrow> write_outcome"
  os_close_fails :: "string \<Rightarrow> bool"
  os_replace_fails :: "string \<Rightarrow> bool"

text \<open>
  The state is the file system and the sequence of what the process did to the lock and to
  the files, in order.
\<close>

datatype event =
    LockAcquire string
  | LockRelease string
  | PathExists string
  | OpenRead string
  | OsOpen string
  | OsWrite string
  | OsClose string
  | OsReplace string string

record world =
  files :: filesystem
  events :: "event list"

definition emit :: "event \<Rightarrow> world \<Rightarrow> world" where
  "emit e w = w\<lparr>events := events w @ [e]\<rparr>"

text \<open>\<open>os.open(path, O_CREAT | O_TRUNC | O_WRONLY, mode)\<close>: an existing file is emptied and
  keeps its mode, a new one gets the mode asked for.\<close>

definition os_open_creat_trunc :: "filesystem \<Rightarrow> string \<Rightarrow> nat \<Rightarrow> filesystem" where
  "os_open_creat_trunc fs p mode =
     (case fs p of
        Some f \<Rightarrow> fs(p \<mapsto> f\<lparr>content := Document PNone\<rparr>)
      | None \<Rightarrow> fs(p \<mapsto> \<lparr>perm = mode, content = Document PNone\<rparr>))"

definition set_content :: "filesystem \<Rightarrow> string \<Rightarrow> content \<Rightarrow> filesystem" where
  "set_content fs p c = (case fs p of Some f \<Rightarrow> fs(p \<mapsto> f\<lparr>content := c\<rparr>) | None \<Rightarrow> fs)"

text \<open>
  \<open>os.write(fd, bytes(yaml.safe_dump(v), 'utf-8'))\<close> on the file just opened at \<open>p\<close>: the
  exception raised, if any, and the file system left behind.
\<close>

definition os_write :: "os \<Rightarrow> filesystem \<Rightarrow> string \<Rightarrow> pyval \<Rightarrow> error option \<times> filesystem" where
  "os_write os fs p v =
     (case os_write_outcome os p of
        WriteRaises \<Rightarrow> (Some OSError, fs)
      | WriteAll \<Rightarrow> (None, set_content fs p (Document (dumped v)))
      | WriteShort c \<Rightarrow> (None, set_content fs p c))"

text \<open>\<open>os.replace(src, dst)\<close>: the file of \<open>src\<close> takes the name \<open>dst\<close> in one step.\<close>

definition os_replace :: "filesystem \<Rightarrow> string \<Rightarrow> string \<Rightarrow> filesystem" where
  "os_replace fs src dst =
     (case fs src of
        Some f \<Rightarrow> (if src = dst then fs else (fs(dst \<mapsto> f))(src := None))
      | None \<Rightarrow> fs)"

section \<open>MailSender: the credential store\<close>

record handle =
  kwargs :: "(string \<times> pyval) list"
  domain_spec :: pyval
  user_cred_file :: string
  user_cred_lock :: string
  user_credentials :: pyval
  sender :: string

text \<open>
  \<open>kwargs.get('creds_file', environ.get('MAILSENDER_CREDS', DEFAULT_CREDS_FILE))\<close>.
\<close>

definition creds_file_option :: "os \<Rightarrow> (string \<times> pyval) list \<Rightarrow> pyval" where
  "creds_file_option os kw =
     (case map_of kw ''creds_file'' of
        Some v \<Rightarrow> v
      | None \<Rightarrow>
          (case map_of (environ os) ''MAILSENDER_CREDS'' of
             Some p \<Rightarrow> PStr p
           | None \<Rightarrow> PStr (DEFAULT_CREDS_FILE os)))"

text \<open>
  \<open>_read_creds_file\<close>, for the lock \<open>lock\<close> and the credential file at path \<open>p\<close>. The
  \<open>with\<close> takes the lock and gives it back on every way out. Only \<open>IOError\<close> is caught.
\<close>

definition read_creds_file ::
  "os \<Rightarrow> world \<Rightarrow> string \<Rightarrow> string \<Rightarrow> (error + pyval) \<times> world" where
  "read_creds_file os w lock p =
     (let w1 = emit (PathExists p) (emit (LockAcquire lock) w)
      in case files w p of
           Some f \<Rightarrow>
             (if open_fails os p
              then Inl (MailSenderException [ArgErr OSError, ArgStr (''Error opening '' @ p)])
              else (case content f of
                      Undecodable \<Rightarrow> Inl UnicodeDecodeError
                    | Garbage \<Rightarrow> Inl YAMLError
                    | Document creds \<Rightarrow> Inr creds),
              emit (LockRelease lock) (emit (OpenRead p) w1))
         | None \<Rightarrow> (Inr (PDict []), emit (LockRelease lock) w1))"

text \<open>\<open>MailSender.__init__\<close>. \<open>path.split\<close> raises \<open>TypeError\<close> on an object that is no
  path; \<open>os.makedirs\<close> is not guarded.\<close>

definition MailSender_init ::
  "os \<Rightarrow> world \<Rightarrow> string \<Rightarrow> pyval \<Rightarrow> (string \<times> pyval) list \<Rightarrow> (error + handle) \<times> world" where
  "MailSender_init os w sndr dspec kw =
     (case creds_file_option os kw of
        PStr cred_file \<Rightarrow>
          (let creds_dir = fst (path_split cred_file) in
           if makedirs_fails os creds_dir then (Inl OSError, w)
           else
             (case read_creds_file os w (cred_file @ ''.lock'') cred_file of
                (Inl e, w1) \<Rightarrow> (Inl e, w1)
              | (Inr creds, w1) \<Rightarrow>
                  (case py_get creds sndr PNone of
                     Inl e \<Rightarrow> (Inl e, w1)
                   | Inr c \<Rightarrow>
                       (Inr \<lparr>kwargs = kw,
                             domain_spec = dspec,
                             user_cred_file = cred_file,
                             user_cred_lock = cred_file @ ''.lock'',
                             user_credentials = (if \<not> truthy c then PDict [] else c),
                             sender = sndr\<rparr>,
                        w1))))
      | _ \<Rightarrow> (Inl TypeError, w))"

text \<open>
  The body of the \<open>with\<close> of \<open>_update_creds\<close>: the exception raised, if any, and the state
  left behind. The mode \<open>0o600\<close> is 384. The \<open>finally\<close> closes the file on every way out
  of the write, and an exception of \<open>os.close\<close> takes the place of the one under way.
\<close>

definition update_creds_locked :: "os \<Rightarrow> world \<Rightarrow> handle \<Rightarrow> (error + unit) \<times> world" where
  "update_creds_locked os w h =
     (case read_creds_file os w (user_cred_lock h) (user_cred_file h) of
        (Inl e, w1) \<Rightarrow> (Inl e, w1)
      | (Inr current_creds, w1) \<Rightarrow>
          (case py_setitem current_creds (sender h) (user_credentials h) of
             Inl e \<Rightarrow> (Inl e, w1)
           | Inr new_creds \<Rightarrow>
               (let temp_file = user_cred_file h @ ''.temp'';
                    cant_write = MailSenderException
                      [ArgErr OSError, ArgStr (''Can't write '' @ user_cred_file h)];
                    w2 = emit (OsOpen temp_file) w1
                in if os_open_fails os temp_file then (Inl cant_write, w2)
                   else
                     (let fs3 = os_open_creat_trunc (files w2) temp_file 384;
                          written = os_write os fs3 temp_file new_creds;
                          w4 = emit (OsClose temp_file)
                                 (emit (OsWrite temp_file) (w2\<lparr>files := snd written\<rparr>))
                      in case fst written of
                           Some e \<Rightarrow>
                             (if os_close_fails os temp_file then (Inl cant_write, w4)
                              else (Inl (MailSenderException
                                      [ArgErr e,
                                       ArgStr (''Problem writing new credentials '' @ temp_file)]),
                                    w4))
                         | None \<Rightarrow>
                             if os_close_fails os temp_file then (Inl cant_write, w4)
                             else
                               (let w5 = emit (OsReplace temp_file (user_cred_file h)) w4
                                in if os_replace_fails os temp_file then (Inl cant_write, w5)
                                   else (Inr (),
                                         w5\<lparr>files := os_replace (files w5) temp_file
                                                          (user_cred_file h)\<rparr>))))))"

text \<open>\<open>_update_creds\<close>: the body, with the lock taken before and given back after.\<close>

definition update_creds :: "os \<Rightarrow> world \<Rightarrow> handle \<Rightarrow> (error + unit) \<times> world" where
  "update_creds os w h =
     (let r = update_creds_locked os (emit (LockAcquire (user_cred_lock h)) w) h
      in (fst r, emit (LockRelease (user_cred_lock h)) (snd r)))"


section \<open>The factory\<close>

text \<open>
  What the factory calls but does not define is a parameter: the search for a module by
  its absolute name (a module is the function from attribute names to attributes that
  \<open>getattr\<close> reads, with \<open>None\<close> for a missing attribute) and the class
  \<open>smtp_sender.SMTPSender\<close>. Calling an attribute with
  \<open>(sender, domain_spec=..., **kwargs)\<close> raises or returns an object, of which the factory
  uses \<open>isinstance(inst, MailSender)\<close> and the result of \<open>inst.open()\<close>.
\<close>

record 'h pyobject =
  is_MailSender :: bool
  open_result :: "error + 'h"

type_synonym 'h pyclass = "string \<Rightarrow> pyval \<Rightarrow> (string \<times> pyval) list \<Rightarrow> error + 'h pyobject"

record 'h importer =
  find_and_load :: "string \<Rightarrow> error + (string \<Rightarrow> 'h pyclass option)"
  SMTPSender :: "'h pyclass"

text \<open>
  \<open>importlib.import_module(name)\<close> with no package: a name that starts with a dot is a
  relative import and raises \<open>TypeError\<close>, the empty name raises \<open>ValueError\<close>, and any other
  name is searched for.
\<close>

definition import_module :: "'h importer \<Rightarrow> string \<Rightarrow> error + (string \<Rightarrow> 'h pyclass option)" where
  "import_module imp name =
     (if name \<noteq> [] \<and> hd name = CHR ''.'' then Inl TypeError
      else if name = [] then Inl ValueError
      else find_and_load imp name)"

text \<open>The body of the \<open>try\<close> of \<open>mail_sender\<close>.\<close>

definition try_extension ::
  "'h importer \<Rightarrow> string \<Rightarrow> string \<Rightarrow> string \<Rightarrow> pyval \<Rightarrow> (string \<times> pyval) list \<Rightarrow> string
     \<Rightarrow> error + 'h" where
  "try_extension imp module_name class_name sndr dspec kw domain =
     (case import_module imp module_name of
        Inl e \<Rightarrow> Inl e
      | Inr modl \<Rightarrow>
          (case modl class_name of
             None \<Rightarrow> Inl AttributeError
           | Some cls \<Rightarrow>
               (case cls sndr dspec kw of
                  Inl e \<Rightarrow> Inl e
                | Inr inst \<Rightarrow>
                    if \<not> is_MailSender inst
                    then Inl (MailSenderException
                           [ArgStr (module_name @ '':'' @ class_name @ '' for '' @ domain
                                    @ '' is not a MailSender'')])
                    else open_result inst)))"

text \<open>The \<open>try\<close> with its \<open>except (ModuleNotFoundError, AttributeError)\<close>.\<close>

definition load_extension ::
  "'h importer \<Rightarrow> string \<Rightarrow> string \<Rightarrow> string \<Rightarrow> pyval \<Rightarrow> (string \<times> pyval) list \<Rightarrow> string
     \<Rightarrow> error + 'h" where
  "load_extension imp module_name class_name sndr dspec kw domain =
     (case try_extension imp module_name class_name sndr dspec kw domain of
        Inl e \<Rightarrow>
          if e = ModuleNotFoundError \<or> e = AttributeError
          then Inl (MailSenderUnsupportedException
                 [ArgErr e,
                  ArgStr (module_name @ '':'' @ class_name @ '' for email domain '' @ domain
                          @ '' unknown)'')])
          else Inl e
      | Inr h \<Rightarrow> Inr h)"

text \<open>\<open>smtp_sender.SMTPSender(sender, domain_spec=domain_spec, **kwargs).open()\<close>.\<close>

definition smtp_sender ::
  "'h importer \<Rightarrow> string \<Rightarrow> pyval \<Rightarrow> (string \<times> pyval) list \<Rightarrow> error + 'h" where
  "smtp_sender imp sndr dspec kw =
     (case SMTPSender imp sndr dspec kw of
        Inl e \<Rightarrow> Inl e
      | Inr inst \<Rightarrow> open_result inst)"

text \<open>
  \<open>mail_sender\<close>, on the table \<open>domains_conf\<close> that \<open>load_config\<close> returned. Unpacking the
  split into two names raises \<open>ValueError\<close> unless it has two parts; \<open>split\<close> is a method
  of strings only.
\<close>

definition mail_sender ::
  "'h importer \<Rightarrow> string \<Rightarrow> pyval \<Rightarrow> (string \<times> pyval) list \<Rightarrow> error + 'h" where
  "mail_sender imp sndr domains_conf kw =
     (if sndr = [] then Inl (MailSenderException [ArgStr ''sender is required''])
      else
        (case py_split CHR ''@'' 2 sndr of
           [addr, domain] \<Rightarrow>
             (case py_get domains_conf domain PNone of
                Inl e \<Rightarrow> Inl e
              | Inr dspec \<Rightarrow>
                  if \<not> truthy dspec
                  then Inl (MailSenderException
                         [ArgStr (''Domain '' @ domain @ '' isn't recognized'')])
                  else
                    (case py_get dspec ''protocol'' (PStr ''smtp'') of
                       Inl e \<Rightarrow> Inl e
                     | Inr protocol \<Rightarrow>
                         if protocol = PStr ''smtp''
                         then smtp_sender imp sndr dspec kw
                         else
                           (case py_contains_colon protocol of
                              Inl e \<Rightarrow> Inl e
                            | Inr has_colon \<Rightarrow>
                                if \<not> has_colon
                                then Inl (MailSenderException
                                       [ArgStr (''No implementation specified for domain ''
                                                @ domain)])
                                else
                                  (case protocol of
                                     PStr p \<Rightarrow>
                                       (case py_split CHR '':'' 1 p of
                                          [module_name, class_name] \<Rightarrow>
                                            load_extension imp module_name class_name sndr dspec kw domain
                                        | _ \<Rightarrow> Inl ValueError)
                                   | _ \<Rightarrow> Inl AttributeError))))
         | _ \<Rightarrow> Inl ValueError))"

section \<open>Reading the specification's words\<close>


section \<open>Fixtures\<close>

text \<open>A process with no environment override, in which every system call does its work.\<close>

definition test_os :: os where
  "test_os =
     \<lparr>environ = [],
      DEFAULT_CREDS_FILE = ''/home/user/.config/MailSender/mailsender_creds.yml'',
      makedirs_fails = (\<lambda>_. False),
      open_fails = (\<lambda>_. False),
      os_open_fails = (\<lambda>_. False),
      os_write_outcome = (\<lambda>_. WriteAll),
      os_close_fails = (\<lambda>_. False),
      os_replace_fails = (\<lambda>_. False)\<rparr>"

text \<open>The credential file of the fixtures, its lock, and a disk that holds only the file.\<close>

definition creds_path :: string where
  "creds_path = ''/home/user/.config/MailSender/mailsender_creds.yml''"

definition creds_lock :: string where
  "creds_lock = ''/home/user/.config/MailSender/mailsender_creds.yml.lock''"

definition empty_disk :: world where
  "empty_disk = \<lparr>files = Map.empty, events = []\<rparr>"

definition disk_with :: "content \<Rightarrow> world" where
  "disk_with c = \<lparr>files = Map.empty(creds_path \<mapsto> \<lparr>perm = 384, content = c\<rparr>), events = []\<rparr>"

text \<open>
  \<open>TestBase\<close> of the test suite: a subclass of \<open>MailSender\<close> whose constructor is the base
  constructor (run here on an empty disk) and whose service name is \<open>test_service\<close>;
  \<open>open\<close> is inherited and returns the object.
\<close>

definition TestBase :: "(string \<times> handle) pyclass" where
  "TestBase sndr dspec kw =
     (case fst (MailSender_init test_os empty_disk sndr dspec kw) of
        Inl e \<Rightarrow> Inl e
      | Inr h \<Rightarrow> Inr \<lparr>is_MailSender = True, open_result = Inr (''test_service'', h)\<rparr>)"

text \<open>A class that accepts the constructor's arguments and is no \<open>MailSender\<close>.\<close>

definition NotASender :: "(string \<times> handle) pyclass" where
  "NotASender sndr dspec kw =
     Inr \<lparr>is_MailSender = False, open_result = Inl AttributeError\<rparr>"

text \<open>
  An interpreter that finds the module \<open>test_mail_sender\<close>, with the two classes above,
  and nothing else. The class \<open>SMTPSender\<close> stands for the built-in SMTP sender: a
  \<open>MailSender\<close> with the base constructor and the service name \<open>smtp\<close>.
\<close>

definition test_importer :: "(string \<times> handle) importer" where
  "test_importer =
     \<lparr>find_and_load =
        (\<lambda>m. if m = ''test_mail_sender''
              then Inr (\<lambda>c. if c = ''TestBase'' then Some TestBase
                             else if c = ''NotASender'' then Some NotASender
                             else None)
              else Inl ModuleNotFoundError),
      SMTPSender =
        (\<lambda>sndr dspec kw.
           case fst (MailSender_init test_os empty_disk sndr dspec kw) of
             Inl e \<Rightarrow> Inl e
           | Inr h \<Rightarrow> Inr \<lparr>is_MailSender = True, open_result = Inr (''smtp'', h)\<rparr>)\<rparr>"

text \<open>A handle on the fixtures' credential file, and a store with two senders; the
  record of the second sender is not in the order of the dump.\<close>

definition handle_for :: "string \<Rightarrow> pyval \<Rightarrow> handle" where
  "handle_for sndr creds =
     \<lparr>kwargs = [], domain_spec = PNone, user_cred_file = creds_path,
      user_cred_lock = creds_lock, user_credentials = creds, sender = sndr\<rparr>"

definition two_senders :: "(pyval \<times> pyval) list" where
  "two_senders =
     [(PStr ''a@x.org'', PDict [(PStr ''token'', PStr ''t'')]),
      (PStr ''b@x.org'', PDict [(PStr ''user'', PStr ''b''), (PStr ''password'', PStr ''q'')])]"

section \<open>The order of the dump\<close>

lemma map_of_filter_key: "map_of (filter (\<lambda>kv. fst kv = k) xs) k = map_of xs k"
  by (induction xs) auto

lemma filter_filter_key:
  "filter (\<lambda>kv. fst kv = k) (filter (\<lambda>kv. g (fst kv) = g k) ys) = filter (\<lambda>kv. fst kv = k) ys"
  by (induction ys) auto

lemma filter_key_sort_key:
  "filter (\<lambda>kv. fst kv = k) (sort_key (\<lambda>kv. g (fst kv)) xs) = filter (\<lambda>kv. fst kv = k) xs"
proof -
  have "filter (\<lambda>kv. fst kv = k) (sort_key (\<lambda>kv. g (fst kv)) xs)
          = filter (\<lambda>kv. fst kv = k)
              (filter (\<lambda>kv. g (fst kv) = g k) (sort_key (\<lambda>kv. g (fst kv)) xs))"
    by (simp only: filter_filter_key)
  also have "\<dots> = filter (\<lambda>kv. fst kv = k) (filter (\<lambda>kv. g (fst kv) = g k) xs)"
    by (simp only: sort_key_stable)
  also have "\<dots> = filter (\<lambda>kv. fst kv = k) xs"
    by (simp only: filter_filter_key)
  finally show ?thesis .
qed

lemma map_of_sort_key: "map_of (sort_key (\<lambda>kv. g (fst kv)) xs) k = map_of xs k"
proof -
  have "map_of (sort_key (\<lambda>kv. g (fst kv)) xs) k
          = map_of (filter (\<lambda>kv. fst kv = k) (sort_key (\<lambda>kv. g (fst kv)) xs)) k"
    by (simp only: map_of_filter_key)
  also have "\<dots> = map_of (filter (\<lambda>kv. fst kv = k) xs) k"
    by (simp only: filter_key_sort_key)
  also have "\<dots> = map_of xs k"
    by (simp only: map_of_filter_key)
  finally show ?thesis .
qed


text \<open>Sorting the items of a mapping changes no lookup.\<close>

lemma map_of_sort_items: "map_of (sort_items xs) k = map_of xs k"
  by (simp add: sort_items_def map_of_sort_key)



lemma map_of_dumped_items:
  "map_of (map (\<lambda>(k, v). (k, dumped v)) xs) k = map_option dumped (map_of xs k)"
  by (induction xs) auto

lemma lookup_dumped:
  "dumped (PDict kvs) = PDict new \<Longrightarrow> map_of new k = map_option dumped (map_of kvs k)"
  by (auto simp: map_of_sort_items map_of_dumped_items)


section \<open>The credential store\<close>

lemma files_read_creds_file: "files (snd (read_creds_file os w l p)) = files w"
  by (simp add: read_creds_file_def emit_def Let_def split: option.splits)

lemma events_read_creds_file:
  "events (snd (read_creds_file os w l p)) =
     events w @ [LockAcquire l, PathExists p]
       @ (if files w p = None then [] else [OpenRead p]) @ [LockRelease l]"
  by (simp add: read_creds_file_def emit_def Let_def split: option.splits)

lemma fst_read_creds_file_cong:
  "files w = files w' \<Longrightarrow> fst (read_creds_file os w l p) = fst (read_creds_file os w' l' p)"
  by (simp add: read_creds_file_def Let_def split: option.splits)

lemma read_creds_file_emit:
  "fst (read_creds_file os (emit e w) l p) = fst (read_creds_file os w l p)"
  by (rule fst_read_creds_file_cong) (simp add: emit_def)

lemma temp_not_target: "p @ ''.temp'' \<noteq> p"
  by simp

text \<open>Whatever makes the update raise, the credential file is the one it was.\<close>

lemma update_creds_failure_frame:
  "fst (update_creds os w h) = Inl e \<Longrightarrow>
   files (snd (update_creds os w h)) (user_cred_file h) = files w (user_cred_file h)"
  by (auto simp: update_creds_def update_creds_locked_def Let_def emit_def split_beta
        files_read_creds_file os_write_def os_open_creat_trunc_def set_content_def
      split: sum.splits if_splits option.splits write_outcome.splits)

text \<open>What an update does when no system call raises.\<close>

lemma update_creds_runs:
  assumes "fst (read_creds_file os w (user_cred_lock h) (user_cred_file h)) = Inr (PDict cur)"
    and "\<not> os_open_fails os (user_cred_file h @ ''.temp'')"
    and "os_write_outcome os (user_cred_file h @ ''.temp'') \<noteq> WriteRaises"
    and "\<not> os_close_fails os (user_cred_file h @ ''.temp'')"
    and "\<not> os_replace_fails os (user_cred_file h @ ''.temp'')"
  shows "fst (update_creds os w h) = Inr ()"
    and "files (snd (update_creds os w h)) (user_cred_file h) =
           Some \<lparr>perm = (case files w (user_cred_file h @ ''.temp'') of
                           None \<Rightarrow> 384 | Some f \<Rightarrow> perm f),
                 content = (case os_write_outcome os (user_cred_file h @ ''.temp'') of
                              WriteShort c \<Rightarrow> c
                            | _ \<Rightarrow> Document (dumped (PDict
                                 (AList.update (PStr (sender h)) (user_credentials h) cur))))\<rparr>"
    and "files (snd (update_creds os w h)) (user_cred_file h @ ''.temp'') = None"
    and "events (snd (update_creds os w h)) =
           events w @ [LockAcquire (user_cred_lock h), LockAcquire (user_cred_lock h),
                       PathExists (user_cred_file h)]
             @ (if files w (user_cred_file h) = None then [] else [OpenRead (user_cred_file h)])
             @ [LockRelease (user_cred_lock h),
                OsOpen (user_cred_file h @ ''.temp''),
                OsWrite (user_cred_file h @ ''.temp''),
                OsClose (user_cred_file h @ ''.temp''),
                OsReplace (user_cred_file h @ ''.temp'') (user_cred_file h),
                LockRelease (user_cred_lock h)]"
proof -
  let ?w0 = "emit (LockAcquire (user_cred_lock h)) w"
  have rd: "fst (read_creds_file os ?w0 (user_cred_lock h) (user_cred_file h)) = Inr (PDict cur)"
    using assms(1) by (simp add: read_creds_file_emit)
  have fs: "files (snd (read_creds_file os ?w0 (user_cred_lock h) (user_cred_file h))) = files w"
    by (simp add: files_read_creds_file emit_def)
  have ev: "events (snd (read_creds_file os ?w0 (user_cred_lock h) (user_cred_file h))) =
      events w @ [LockAcquire (user_cred_lock h), LockAcquire (user_cred_lock h),
                  PathExists (user_cred_file h)]
        @ (if files w (user_cred_file h) = None then [] else [OpenRead (user_cred_file h)])
        @ [LockRelease (user_cred_lock h)]"
    by (simp add: events_read_creds_file emit_def)
  show "fst (update_creds os w h) = Inr ()"
    using rd assms(2-5)
    by (simp add: update_creds_def update_creds_locked_def Let_def split_beta os_write_def
        split: write_outcome.splits)
  show "files (snd (update_creds os w h)) (user_cred_file h) =
           Some \<lparr>perm = (case files w (user_cred_file h @ ''.temp'') of
                           None \<Rightarrow> 384 | Some f \<Rightarrow> perm f),
                 content = (case os_write_outcome os (user_cred_file h @ ''.temp'') of
                              WriteShort c \<Rightarrow> c
                            | _ \<Rightarrow> Document (dumped (PDict
                                 (AList.update (PStr (sender h)) (user_credentials h) cur))))\<rparr>"
    using rd fs assms(2-5)
    by (simp add: update_creds_def update_creds_locked_def Let_def split_beta os_write_def
        emit_def os_open_creat_trunc_def set_content_def os_replace_def
        split: write_outcome.splits option.splits)
  show "files (snd (update_creds os w h)) (user_cred_file h @ ''.temp'') = None"
    using rd fs assms(2-5)
    by (simp add: update_creds_def update_creds_locked_def Let_def split_beta os_write_def
        emit_def os_open_creat_trunc_def set_content_def os_replace_def
        split: write_outcome.splits option.splits)
  show "events (snd (update_creds os w h)) =
           events w @ [LockAcquire (user_cred_lock h), LockAcquire (user_cred_lock h),
                       PathExists (user_cred_file h)]
             @ (if files w (user_cred_file h) = None then [] else [OpenRead (user_cred_file h)])
             @ [LockRelease (user_cred_lock h),
                OsOpen (user_cred_file h @ ''.temp''),
                OsWrite (user_cred_file h @ ''.temp''),
                OsClose (user_cred_file h @ ''.temp''),
                OsReplace (user_cred_file h @ ''.temp'') (user_cred_file h),
                LockRelease (user_cred_lock h)]"
    using rd ev assms(2-5)
    by (simp add: update_creds_def update_creds_locked_def Let_def split_beta os_write_def
        emit_def split: write_outcome.splits)
qed

section \<open>Updating and reading back\<close>


lemma read_after_update:
  assumes "fst (read_creds_file os w (user_cred_lock h) (user_cred_file h)) = Inr (PDict cur)"
    and "\<not> os_open_fails os (user_cred_file h @ ''.temp'')"
    and "os_write_outcome os (user_cred_file h @ ''.temp'') = WriteAll"
    and "\<not> os_close_fails os (user_cred_file h @ ''.temp'')"
    and "\<not> os_replace_fails os (user_cred_file h @ ''.temp'')"
    and "\<not> open_fails os (user_cred_file h)"
  shows "fst (read_creds_file os (snd (update_creds os w h)) l (user_cred_file h)) =
           Inr (dumped (PDict (AList.update (PStr (sender h)) (user_credentials h) cur)))"
proof -
  have "os_write_outcome os (user_cred_file h @ ''.temp'') \<noteq> WriteRaises"
    using assms(3) by simp
  from update_creds_runs(2) [OF assms(1) assms(2) this assms(4) assms(5)] assms(3,6)
  show ?thesis
    by (simp add: read_creds_file_def Let_def)
qed




text \<open>
  A handle that was built before another handle changed the store: both updates, one after
  the other, are in the file at the end.
\<close>

lemma sequential_updates_both_survive:
  assumes "fst (read_creds_file os w l p) = Inr (PDict cur)"
    and "user_cred_file ha = p" and "user_cred_file hb = p" and "sender ha \<noteq> sender hb"
    and "\<not> os_open_fails os (p @ ''.temp'')" and "os_write_outcome os (p @ ''.temp'') = WriteAll"
    and "\<not> os_close_fails os (p @ ''.temp'')" and "\<not> os_replace_fails os (p @ ''.temp'')"
    and "\<not> open_fails os p"
  shows "\<exists>new. fst (read_creds_file os
            (snd (update_creds os (snd (update_creds os w ha)) hb)) l p) = Inr (PDict new)
          \<and> map_of new (PStr (sender ha)) = Some (dumped (dumped (user_credentials ha)))
          \<and> map_of new (PStr (sender hb)) = Some (dumped (user_credentials hb))"
proof -
  let ?w1 = "snd (update_creds os w ha)"
  let ?mid = "sort_items (map (\<lambda>(k, v). (k, dumped v))
                (AList.update (PStr (sender ha)) (user_credentials ha) cur))"
  let ?new = "sort_items (map (\<lambda>(k, v). (k, dumped v))
                (AList.update (PStr (sender hb)) (user_credentials hb) ?mid))"
  have r0: "fst (read_creds_file os w (user_cred_lock ha) (user_cred_file ha)) = Inr (PDict cur)"
    using assms(1,2) fst_read_creds_file_cong [of w w os l p "user_cred_lock ha"] by simp
  have rd1: "fst (read_creds_file os ?w1 l' p) = Inr (PDict ?mid)" for l'
    using read_after_update [OF r0, of l'] assms by simp
  have r1: "fst (read_creds_file os ?w1 (user_cred_lock hb) (user_cred_file hb)) = Inr (PDict ?mid)"
    using rd1 assms(3) by simp
  have rd2: "fst (read_creds_file os (snd (update_creds os ?w1 hb)) l p) = Inr (PDict ?new)"
    using read_after_update [OF r1, of l] assms by simp
  have "map_of ?new (PStr (sender ha)) = Some (dumped (dumped (user_credentials ha)))"
    using assms(4) by (simp add: map_of_sort_items map_of_dumped_items update_conv')
  moreover have "map_of ?new (PStr (sender hb)) = Some (dumped (user_credentials hb))"
    by (simp add: map_of_sort_items map_of_dumped_items update_conv')
  ultimately show ?thesis using rd2 by blast
qed

section \<open>A write that falls short\<close>

text \<open>
  C2, where the code departs from it. \<open>os.write\<close> writes the first bytes of the dump only,
  here the record of the first sender, and returns their number. \<open>_update_creds\<close> does not
  look at the number: it closes the temporary file and renames it over the credential
  file, and returns. The credential file is left half-written, the record of the second
  sender is gone, and no exception says so.
\<close>

theorem short_write_replaces_target:
  "fst (update_creds
          (test_os\<lparr>os_write_outcome :=
             (\<lambda>p. WriteShort (Document
                (PDict [(PStr ''a@x.org'', PDict [(PStr ''password'', PStr ''p'')])])))\<rparr>)
          (disk_with (Document (PDict two_senders)))
          (handle_for ''a@x.org'' (PDict [(PStr ''password'', PStr ''p'')]))) = Inr ()
   \<and> files (snd (update_creds
          (test_os\<lparr>os_write_outcome :=
             (\<lambda>p. WriteShort (Document
                (PDict [(PStr ''a@x.org'', PDict [(PStr ''password'', PStr ''p'')])])))\<rparr>)
          (disk_with (Document (PDict two_senders)))
          (handle_for ''a@x.org'' (PDict [(PStr ''password'', PStr ''p'')])))) creds_path
     = Some \<lparr>perm = 384,
             content = Document
               (PDict [(PStr ''a@x.org'', PDict [(PStr ''password'', PStr ''p'')])])\<rparr>
   \<and> files (disk_with (Document (PDict two_senders))) creds_path
     = Some \<lparr>perm = 384, content = Document (PDict two_senders)\<rparr>
   \<and> py_get (PDict [(PStr ''a@x.org'', PDict [(PStr ''password'', PStr ''p'')])])
        ''b@x.org'' PNone = Inr PNone"
proof -
  let ?c = "Document (PDict [(PStr ''a@x.org'', PDict [(PStr ''password'', PStr ''p'')])])"
  let ?os = "test_os\<lparr>os_write_outcome := (\<lambda>p. WriteShort ?c)\<rparr>"
  let ?h = "handle_for ''a@x.org'' (PDict [(PStr ''password'', PStr ''p'')])"
  let ?w = "disk_with (Document (PDict two_senders))"
  have h1: "fst (read_creds_file ?os ?w (user_cred_lock ?h) (user_cred_file ?h))
              = Inr (PDict two_senders)"
    by (simp add: read_creds_file_def test_os_def disk_with_def handle_for_def Let_def)
  have h2: "\<not> os_open_fails ?os (user_cred_file ?h @ ''.temp'')"
    and h3: "os_write_outcome ?os (user_cred_file ?h @ ''.temp'') \<noteq> WriteRaises"
    and h4: "\<not> os_close_fails ?os (user_cred_file ?h @ ''.temp'')"
    and h5: "\<not> os_replace_fails ?os (user_cred_file ?h @ ''.temp'')"
    by (simp_all add: test_os_def)
  have t: "files ?w (user_cred_file ?h @ ''.temp'') = None"
    by (simp add: disk_with_def handle_for_def creds_path_def)
  have p: "user_cred_file ?h = creds_path"
    by (simp add: handle_for_def)
  have d: "files ?w creds_path = Some \<lparr>perm = 384, content = Document (PDict two_senders)\<rparr>"
    by (simp add: disk_with_def)
  from update_creds_runs(1) [OF h1 h2 h3 h4 h5] update_creds_runs(2) [OF h1 h2 h3 h4 h5] t p d
  show ?thesis by simp
qed

section \<open>Reading the store\<close>

text \<open>
  C3 (amended). Reading the store returns the empty mapping when the file does not exist,
  and the mapping in the file when the content deserializes to a mapping. For an existing
  file it fails with a \<open>MailSenderException\<close> when opening it fails, with
  \<open>UnicodeDecodeError\<close> when its bytes do not decode and with the parser's own exception
  when they are no YAML; neither of the two is a \<open>MailSenderException\<close>. A file that exists
  reads as the empty mapping only if it holds the empty mapping.
\<close>

theorem read_creds_file_cases:
  "(files w p = None \<longrightarrow> fst (read_creds_file os w l p) = Inr (PDict []))
 \<and> (\<forall>f. files w p = Some f \<and> open_fails os p \<longrightarrow>
        fst (read_creds_file os w l p) =
          Inl (MailSenderException [ArgErr OSError, ArgStr (''Error opening '' @ p)]))
 \<and> (\<forall>f. files w p = Some f \<and> \<not> open_fails os p \<and> content f = Undecodable \<longrightarrow>
        fst (read_creds_file os w l p) = Inl UnicodeDecodeError)
 \<and> (\<forall>f. files w p = Some f \<and> \<not> open_fails os p \<and> content f = Garbage \<longrightarrow>
        fst (read_creds_file os w l p) = Inl YAMLError)
 \<and> (\<forall>f m. files w p = Some f \<and> \<not> open_fails os p \<and> content f = Document (PDict m) \<longrightarrow>
        fst (read_creds_file os w l p) = Inr (PDict m))
 \<and> (\<forall>f. files w p = Some f \<and> fst (read_creds_file os w l p) = Inr (PDict []) \<longrightarrow>
        content f = Document (PDict []))
 \<and> \<not> is_MailSenderException UnicodeDecodeError \<and> \<not> is_MailSenderException YAMLError"
  by (auto simp: read_creds_file_def Let_def split: content.splits if_splits)

theorem read_creds_file_cases_witness:
  "fst (read_creds_file test_os empty_disk creds_lock creds_path) = Inr (PDict [])
 \<and> fst (read_creds_file (test_os\<lparr>open_fails := (\<lambda>p. True)\<rparr>) (disk_with Garbage)
          creds_lock creds_path)
     = Inl (MailSenderException [ArgErr OSError, ArgStr (''Error opening '' @ creds_path)])
 \<and> fst (read_creds_file test_os (disk_with Undecodable) creds_lock creds_path)
     = Inl UnicodeDecodeError
 \<and> fst (read_creds_file test_os (disk_with Garbage) creds_lock creds_path) = Inl YAMLError
 \<and> fst (read_creds_file test_os (disk_with (Document (PDict two_senders))) creds_lock creds_path)
     = Inr (PDict two_senders)"
proof -
  let ?f = "test_os\<lparr>open_fails := (\<lambda>p. True)\<rparr>"
  have e: "files empty_disk creds_path = None"
    by (simp add: empty_disk_def)
  have g: "files (disk_with Garbage) creds_path = Some \<lparr>perm = 384, content = Garbage\<rparr>"
    and u: "files (disk_with Undecodable) creds_path
            = Some \<lparr>perm = 384, content = Undecodable\<rparr>"
    and d: "files (disk_with (Document (PDict two_senders))) creds_path
            = Some \<lparr>perm = 384, content = Document (PDict two_senders)\<rparr>"
    by (simp_all add: disk_with_def)
  have o: "open_fails ?f creds_path" and n: "\<not> open_fails test_os creds_path"
    by (simp_all add: test_os_def)
  have "fst (read_creds_file test_os empty_disk creds_lock creds_path) = Inr (PDict [])"
    using read_creds_file_cases [of empty_disk creds_path test_os creds_lock] e by simp
  moreover have "fst (read_creds_file ?f (disk_with Garbage) creds_lock creds_path)
     = Inl (MailSenderException [ArgErr OSError, ArgStr (''Error opening '' @ creds_path)])"
    using read_creds_file_cases [of "disk_with Garbage" creds_path ?f creds_lock] g o by simp
  moreover have "fst (read_creds_file test_os (disk_with Undecodable) creds_lock creds_path)
     = Inl UnicodeDecodeError"
    using read_creds_file_cases [of "disk_with Undecodable" creds_path test_os creds_lock] u n
    by simp
  moreover have "fst (read_creds_file test_os (disk_with Garbage) creds_lock creds_path)
     = Inl YAMLError"
    using read_creds_file_cases [of "disk_with Garbage" creds_path test_os creds_lock] g n
    by simp
  moreover have
    "fst (read_creds_file test_os (disk_with (Document (PDict two_senders))) creds_lock creds_path)
     = Inr (PDict two_senders)"
    using read_creds_file_cases
      [of "disk_with (Document (PDict two_senders))" creds_path test_os creds_lock] d n
    by simp
  ultimately show ?thesis by simp
qed

text \<open>
  C3 as stated fails: a file that is no YAML makes the read fail with the parser's
  exception, and a file whose bytes do not decode with \<open>UnicodeDecodeError\<close>; neither is a
  \<open>MailSenderException\<close>.
\<close>

theorem read_store_corrupt_counterexample:
  "fst (read_creds_file test_os (disk_with Garbage) creds_lock creds_path) = Inl YAMLError
 \<and> \<not> is_MailSenderException YAMLError
 \<and> fst (read_creds_file test_os (disk_with Undecodable) creds_lock creds_path)
     = Inl UnicodeDecodeError
 \<and> \<not> is_MailSenderException UnicodeDecodeError"
  by (simp add: read_creds_file_def test_os_def disk_with_def Let_def)

lemma py_get_not_dict: "\<not> is_dict v \<Longrightarrow> py_get v k d = Inl AttributeError"
  by (cases v) simp_all

lemma py_setitem_not_dict: "\<not> is_dict v \<Longrightarrow> py_setitem v k x = Inl TypeError"
  by (cases v) simp_all

text \<open>
  C10. When the credential file exists, can be opened and deserializes to an object that is
  no mapping, the read returns that object; building a handle on the file then fails with
  \<open>AttributeError\<close> and an update through a handle on the file fails with \<open>TypeError\<close>,
  leaving the files as they were; neither is a \<open>MailSenderException\<close>.
\<close>

theorem non_mapping_document:
  assumes "files w p = Some f" and "\<not> open_fails os p" and "content f = Document v"
    and "\<not> is_dict v"
  shows "fst (read_creds_file os w l p) = Inr v
       \<and> (creds_file_option os kw = PStr p \<and> \<not> makedirs_fails os (fst (path_split p)) \<longrightarrow>
            fst (MailSender_init os w s d kw) = Inl AttributeError)
       \<and> (user_cred_file h = p \<longrightarrow>
            fst (update_creds os w h) = Inl TypeError
            \<and> files (snd (update_creds os w h)) = files w)
       \<and> \<not> is_MailSenderException AttributeError \<and> \<not> is_MailSenderException TypeError"
proof -
  have rd: "fst (read_creds_file os w' l' p) = Inr v" if "files w' = files w" for w' l'
    using assms that by (simp add: read_creds_file_def Let_def)
  have "fst (MailSender_init os w s d kw) = Inl AttributeError"
    if "creds_file_option os kw = PStr p \<and> \<not> makedirs_fails os (fst (path_split p))"
    using that rd [of w] assms(4)
    by (simp add: MailSender_init_def split_beta py_get_not_dict)
  moreover have "fst (update_creds os w h) = Inl TypeError
            \<and> files (snd (update_creds os w h)) = files w"
    if "user_cred_file h = p"
    using that rd [of "emit (LockAcquire (user_cred_lock h)) w"] assms(4)
    by (simp add: update_creds_def update_creds_locked_def split_beta py_setitem_not_dict
        files_read_creds_file emit_def)
  ultimately show ?thesis using rd [of w l] by simp
qed

text \<open>The theorem at work on an empty credential file, which loads as \<open>None\<close>.\<close>

theorem non_mapping_document_witness:
  "files (disk_with (Document PNone)) creds_path
     = Some \<lparr>perm = 384, content = Document PNone\<rparr>
 \<and> fst (read_creds_file test_os (disk_with (Document PNone)) creds_lock creds_path) = Inr PNone
 \<and> fst (MailSender_init test_os (disk_with (Document PNone)) ''a@x.org'' PNone [])
     = Inl AttributeError
 \<and> fst (update_creds test_os (disk_with (Document PNone))
      (handle_for ''a@x.org'' (PDict [(PStr ''password'', PStr ''p'')]))) = Inl TypeError
 \<and> files (snd (update_creds test_os (disk_with (Document PNone))
      (handle_for ''a@x.org'' (PDict [(PStr ''password'', PStr ''p'')]))))
     = files (disk_with (Document PNone))"
proof -
  let ?w = "disk_with (Document PNone)"
  let ?h = "handle_for ''a@x.org'' (PDict [(PStr ''password'', PStr ''p'')])"
  have h1: "files ?w creds_path = Some \<lparr>perm = 384, content = Document PNone\<rparr>"
    by (simp add: disk_with_def)
  have h2: "\<not> open_fails test_os creds_path"
    by (simp add: test_os_def)
  have h3: "content \<lparr>perm = 384, content = Document PNone\<rparr> = Document PNone"
    and h4: "\<not> is_dict PNone"
    by simp_all
  have k: "creds_file_option test_os [] = PStr creds_path"
    by (simp add: creds_file_option_def test_os_def creds_path_def)
  have m: "\<not> makedirs_fails test_os (fst (path_split creds_path))"
    by (simp add: test_os_def)
  have u: "user_cred_file ?h = creds_path"
    by (simp add: handle_for_def)
  from non_mapping_document
         [of ?w creds_path "\<lparr>perm = 384, content = Document PNone\<rparr>" test_os PNone
             creds_lock "[]" "''a@x.org''" PNone ?h, OF h1 h2 h3 h4]
       h1 k m u
  show ?thesis by simp
qed

section \<open>The path of the credential file\<close>

text \<open>
  C9. When the \<open>creds_file\<close> option is given, a handle is built on the path it names,
  whatever the environment; when it is not given and the environment variable
  \<open>MAILSENDER_CREDS\<close> is set, on the path the variable names; when neither is there, on the
  default path. The handle is built whenever the directory can be made and the file at
  that path is absent or holds a mapping; its lock is the path with \<open>.lock\<close> and its
  credentials are those the file at that path has for the sender. An option that is given
  and is no path makes the constructor fail, whatever the environment.
\<close>

theorem creds_file_resolution_order:
  assumes "map_of kw ''creds_file'' = Some (PStr p)
         \<or> (map_of kw ''creds_file'' = None
              \<and> map_of (environ os) ''MAILSENDER_CREDS'' = Some p)
         \<or> (map_of kw ''creds_file'' = None
              \<and> map_of (environ os) ''MAILSENDER_CREDS'' = None
              \<and> DEFAULT_CREDS_FILE os = p)"
    and "\<not> makedirs_fails os (fst (path_split p))"
    and "fst (read_creds_file os w (p @ ''.lock'') p) = Inr (PDict m)"
  shows "(\<exists>h. fst (MailSender_init os w s d kw) = Inr h
            \<and> user_cred_file h = p \<and> user_cred_lock h = p @ ''.lock''
            \<and> user_credentials h =
                (case map_of m (PStr s) of
                   None \<Rightarrow> PDict []
                 | Some c \<Rightarrow> if truthy c then c else PDict []))
       \<and> (\<forall>v kw'. map_of kw' ''creds_file'' = Some v \<and> \<not> is_str v \<longrightarrow>
            fst (MailSender_init os w s d kw') = Inl TypeError)"
proof -
  have c: "creds_file_option os kw = PStr p"
    using assms(1) by (auto simp: creds_file_option_def)
  have "\<exists>h. fst (MailSender_init os w s d kw) = Inr h
            \<and> user_cred_file h = p \<and> user_cred_lock h = p @ ''.lock''
            \<and> user_credentials h =
                (case map_of m (PStr s) of
                   None \<Rightarrow> PDict []
                 | Some c \<Rightarrow> if truthy c then c else PDict [])"
    using c assms(2,3)
    by (auto simp: MailSender_init_def split_beta split: option.splits)
  moreover have "fst (MailSender_init os w s d kw') = Inl TypeError"
    if "map_of kw' ''creds_file'' = Some v \<and> \<not> is_str v" for v kw'
    using that by (cases v) (simp_all add: MailSender_init_def creds_file_option_def)
  ultimately show ?thesis by blast
qed

text \<open>
  The three sources of the path, each with the ones after it set to something else, on a
  disk whose file at the chosen path has a record for the sender; and an option that is no
  path.
\<close>

theorem creds_file_resolution_order_witness:
  "fst (MailSender_init (test_os\<lparr>environ := [(''MAILSENDER_CREDS'', ''/etc/creds.yml'')]\<rparr>)
         \<lparr>files = Map.empty(''/tmp/c.yml'' \<mapsto>
              \<lparr>perm = 384, content = Document (PDict two_senders)\<rparr>), events = []\<rparr>
         ''a@x.org'' PNone [(''creds_file'', PStr ''/tmp/c.yml'')])
     = Inr \<lparr>kwargs = [(''creds_file'', PStr ''/tmp/c.yml'')], domain_spec = PNone,
            user_cred_file = ''/tmp/c.yml'', user_cred_lock = ''/tmp/c.yml.lock'',
            user_credentials = PDict [(PStr ''token'', PStr ''t'')], sender = ''a@x.org''\<rparr>
 \<and> fst (MailSender_init (test_os\<lparr>environ := [(''MAILSENDER_CREDS'', ''/etc/creds.yml'')]\<rparr>)
         \<lparr>files = Map.empty(''/etc/creds.yml'' \<mapsto>
              \<lparr>perm = 384, content = Document (PDict two_senders)\<rparr>), events = []\<rparr>
         ''a@x.org'' PNone [])
     = Inr \<lparr>kwargs = [], domain_spec = PNone,
            user_cred_file = ''/etc/creds.yml'', user_cred_lock = ''/etc/creds.yml.lock'',
            user_credentials = PDict [(PStr ''token'', PStr ''t'')], sender = ''a@x.org''\<rparr>
 \<and> fst (MailSender_init test_os (disk_with (Document (PDict two_senders))) ''a@x.org'' PNone [])
     = Inr \<lparr>kwargs = [], domain_spec = PNone,
            user_cred_file = DEFAULT_CREDS_FILE test_os,
            user_cred_lock = DEFAULT_CREDS_FILE test_os @ ''.lock'',
            user_credentials = PDict [(PStr ''token'', PStr ''t'')], sender = ''a@x.org''\<rparr>
 \<and> fst (MailSender_init (test_os\<lparr>environ := [(''MAILSENDER_CREDS'', ''/etc/creds.yml'')]\<rparr>)
         \<lparr>files = Map.empty(''/etc/creds.yml'' \<mapsto>
              \<lparr>perm = 384, content = Document (PDict two_senders)\<rparr>), events = []\<rparr>
         ''a@x.org'' PNone [(''creds_file'', PNone)])
     = Inl TypeError"
proof -
  let ?e = "test_os\<lparr>environ := [(''MAILSENDER_CREDS'', ''/etc/creds.yml'')]\<rparr>"
  let ?kw = "[(''creds_file'', PStr ''/tmp/c.yml'')]"
  let ?w1 = "\<lparr>files = Map.empty(''/tmp/c.yml'' \<mapsto>
              \<lparr>perm = 384, content = Document (PDict two_senders)\<rparr>), events = []\<rparr>"
  let ?w2 = "\<lparr>files = Map.empty(''/etc/creds.yml'' \<mapsto>
              \<lparr>perm = 384, content = Document (PDict two_senders)\<rparr>), events = []\<rparr>"
  let ?w3 = "disk_with (Document (PDict two_senders))"
  let ?d = "DEFAULT_CREDS_FILE test_os"
  have a1: "map_of ?kw ''creds_file'' = Some (PStr ''/tmp/c.yml'')
         \<or> (map_of ?kw ''creds_file'' = None
              \<and> map_of (environ ?e) ''MAILSENDER_CREDS'' = Some ''/tmp/c.yml'')
         \<or> (map_of ?kw ''creds_file'' = None
              \<and> map_of (environ ?e) ''MAILSENDER_CREDS'' = None
              \<and> DEFAULT_CREDS_FILE ?e = ''/tmp/c.yml'')"
    by simp
  have a2: "map_of [] ''creds_file'' = Some (PStr ''/etc/creds.yml'')
         \<or> (map_of ([] :: (string \<times> pyval) list) ''creds_file'' = None
              \<and> map_of (environ ?e) ''MAILSENDER_CREDS'' = Some ''/etc/creds.yml'')
         \<or> (map_of ([] :: (string \<times> pyval) list) ''creds_file'' = None
              \<and> map_of (environ ?e) ''MAILSENDER_CREDS'' = None
              \<and> DEFAULT_CREDS_FILE ?e = ''/etc/creds.yml'')"
    by (simp add: test_os_def)
  have a3: "map_of [] ''creds_file'' = Some (PStr ?d)
         \<or> (map_of ([] :: (string \<times> pyval) list) ''creds_file'' = None
              \<and> map_of (environ test_os) ''MAILSENDER_CREDS'' = Some ?d)
         \<or> (map_of ([] :: (string \<times> pyval) list) ''creds_file'' = None
              \<and> map_of (environ test_os) ''MAILSENDER_CREDS'' = None
              \<and> DEFAULT_CREDS_FILE test_os = ?d)"
    by (simp add: test_os_def)
  have m1: "\<not> makedirs_fails ?e (fst (path_split ''/tmp/c.yml''))"
    and m2: "\<not> makedirs_fails ?e (fst (path_split ''/etc/creds.yml''))"
    and m3: "\<not> makedirs_fails test_os (fst (path_split ?d))"
    by (simp_all add: test_os_def)
  have r1: "fst (read_creds_file ?e ?w1 (''/tmp/c.yml'' @ ''.lock'') ''/tmp/c.yml'')
              = Inr (PDict two_senders)"
    and r2: "fst (read_creds_file ?e ?w2 (''/etc/creds.yml'' @ ''.lock'') ''/etc/creds.yml'')
              = Inr (PDict two_senders)"
    and r3: "fst (read_creds_file test_os ?w3 (?d @ ''.lock'') ?d) = Inr (PDict two_senders)"
    by (simp_all add: read_creds_file_def Let_def test_os_def disk_with_def creds_path_def)
  have t: "map_of [(''creds_file'', PNone)] ''creds_file'' = Some PNone \<and> \<not> is_str PNone"
    by simp
  have c: "(case map_of two_senders (PStr ''a@x.org'') of
              None \<Rightarrow> PDict []
            | Some c \<Rightarrow> if truthy c then c else PDict []) = PDict [(PStr ''token'', PStr ''t'')]"
    by (simp add: two_senders_def)
  have k1: "kwargs h = ?kw \<and> domain_spec h = PNone \<and> sender h = ''a@x.org''"
    if "fst (MailSender_init ?e ?w1 ''a@x.org'' PNone ?kw) = Inr h" for h
    using that by (auto simp: MailSender_init_def split_beta split: pyval.splits if_splits sum.splits)
  have k2: "kwargs h = [] \<and> domain_spec h = PNone \<and> sender h = ''a@x.org''"
    if "fst (MailSender_init os w ''a@x.org'' PNone []) = Inr h" for h os w
    using that by (auto simp: MailSender_init_def split_beta split: pyval.splits if_splits sum.splits)
  from creds_file_resolution_order [OF a1 m1 r1, of "''a@x.org''" PNone] c k1
  have g1: "fst (MailSender_init ?e ?w1 ''a@x.org'' PNone ?kw)
     = Inr \<lparr>kwargs = ?kw, domain_spec = PNone,
            user_cred_file = ''/tmp/c.yml'', user_cred_lock = ''/tmp/c.yml.lock'',
            user_credentials = PDict [(PStr ''token'', PStr ''t'')], sender = ''a@x.org''\<rparr>"
    by auto
  from creds_file_resolution_order [OF a2 m2 r2, of "''a@x.org''" PNone] c k2
  have g2: "fst (MailSender_init ?e ?w2 ''a@x.org'' PNone [])
     = Inr \<lparr>kwargs = [], domain_spec = PNone,
            user_cred_file = ''/etc/creds.yml'', user_cred_lock = ''/etc/creds.yml.lock'',
            user_credentials = PDict [(PStr ''token'', PStr ''t'')], sender = ''a@x.org''\<rparr>"
    by auto
  from creds_file_resolution_order [OF a3 m3 r3, of "''a@x.org''" PNone] c k2
  have g3: "fst (MailSender_init test_os ?w3 ''a@x.org'' PNone [])
     = Inr \<lparr>kwargs = [], domain_spec = PNone,
            user_cred_file = ?d, user_cred_lock = ?d @ ''.lock'',
            user_credentials = PDict [(PStr ''token'', PStr ''t'')], sender = ''a@x.org''\<rparr>"
    by auto
  from creds_file_resolution_order [OF a2 m2 r2, of "''a@x.org''" PNone] t
  have g4: "fst (MailSender_init ?e ?w2 ''a@x.org'' PNone [(''creds_file'', PNone)])
     = Inl TypeError"
    by blast
  from g1 g2 g3 g4 show ?thesis by simp
qed

section \<open>Splitting strings\<close>

lemma py_split_no_sep: "sep \<notin> set s \<Longrightarrow> py_split sep n s = [s]"
  by (cases n) simp_all

lemma takeWhile_sep: "sep \<notin> set a \<Longrightarrow> takeWhile (\<lambda>c. c \<noteq> sep) (a @ sep # d) = a"
  by (induction a) auto

lemma dropWhile_sep:
  "sep \<notin> set a \<Longrightarrow> dropWhile (\<lambda>c. c \<noteq> sep) (a @ sep # d) = sep # d"
  by (induction a) auto

lemma py_split_first:
  "sep \<notin> set a \<Longrightarrow> py_split sep (Suc n) (a @ sep # d) = a # py_split sep n d"
  by (simp add: takeWhile_sep dropWhile_sep)

lemma py_split_address:
  "CHR ''@'' \<notin> set a \<Longrightarrow> CHR ''@'' \<notin> set d \<Longrightarrow>
   py_split CHR ''@'' 2 (a @ CHR ''@'' # d) = [a, d]"
  using py_split_first [of "CHR ''@''" a 1 d] py_split_no_sep [of "CHR ''@''" d 1]
  by (simp add: numeral_2_eq_2)

lemma count_split:
  "sep \<in> set s \<Longrightarrow>
   count_list s sep = Suc (count_list (tl (dropWhile (\<lambda>c. c \<noteq> sep) s)) sep)"
  by (induction s) auto

text \<open>The split has one part more than there are separators, up to the limit.\<close>

lemma length_py_split:
  "length (py_split sep n s) = min (Suc n) (Suc (count_list s sep))"
proof (induction n arbitrary: s)
  case 0
  show ?case by simp
next
  case (Suc n)
  show ?case
  proof (cases "sep \<in> set s")
    case True
    then show ?thesis
      using Suc [of "tl (dropWhile (\<lambda>c. c \<noteq> sep) s)"] count_split [of sep s]
      by simp
  next
    case False
    then have "count_list s sep = 0" by simp
    with False show ?thesis by simp
  qed
qed

lemma py_split_not_pair:
  "count_list s CHR ''@'' \<noteq> 1 \<Longrightarrow> length (py_split CHR ''@'' 2 s) \<noteq> 2"
  by (simp add: length_py_split min_def)

lemma unpack_ValueError:
  "length xs \<noteq> 2 \<Longrightarrow> (case xs of [a, b] \<Rightarrow> f a b | _ \<Rightarrow> Inl ValueError) = Inl ValueError"
  by (auto split: list.splits)

section \<open>The factory\<close>

text \<open>A specification that names a protocol other than the default is not empty.\<close>

lemma protocol_truthy:
  "py_get dspec ''protocol'' (PStr ''smtp'') = Inr v \<Longrightarrow> v \<noteq> PStr ''smtp'' \<Longrightarrow> truthy dspec"
  by (cases dspec) auto

lemma colon_not_smtp: "m @ CHR '':'' # c \<noteq> ''smtp''"
proof
  assume "m @ CHR '':'' # c = ''smtp''"
  then have "CHR '':'' \<in> set ''smtp''" by (metis in_set_conv_decomp)
  then show False by simp
qed

text \<open>What \<open>mail_sender\<close> does once the address has split and the domain is known.\<close>

lemma mail_sender_resolved:
  assumes "CHR ''@'' \<notin> set addr" and "CHR ''@'' \<notin> set domain"
    and "py_get domains_conf domain PNone = Inr dspec" and "truthy dspec"
    and "py_get dspec ''protocol'' (PStr ''smtp'') = Inr protocol"
  shows "mail_sender imp (addr @ CHR ''@'' # domain) domains_conf kw =
     (if protocol = PStr ''smtp'' then smtp_sender imp (addr @ CHR ''@'' # domain) dspec kw
      else
        (case py_contains_colon protocol of
           Inl e \<Rightarrow> Inl e
         | Inr has_colon \<Rightarrow>
             if \<not> has_colon
             then Inl (MailSenderException
                    [ArgStr (''No implementation specified for domain '' @ domain)])
             else
               (case protocol of
                  PStr p \<Rightarrow>
                    (case py_split CHR '':'' 1 p of
                       [module_name, class_name] \<Rightarrow>
                         load_extension imp module_name class_name (addr @ CHR ''@'' # domain)
                           dspec kw domain
                     | _ \<Rightarrow> Inl ValueError)
                | _ \<Rightarrow> Inl AttributeError)))"
  using assms by (simp add: mail_sender_def py_split_address)

lemma mail_sender_extension:
  assumes "CHR ''@'' \<notin> set addr" and "CHR ''@'' \<notin> set domain"
    and "py_get domains_conf domain PNone = Inr dspec"
    and "py_get dspec ''protocol'' (PStr ''smtp'') = Inr (PStr (m @ CHR '':'' # c))"
    and "CHR '':'' \<notin> set m"
  shows "mail_sender imp (addr @ CHR ''@'' # domain) domains_conf kw =
           load_extension imp m c (addr @ CHR ''@'' # domain) dspec kw domain"
proof -
  have "truthy dspec"
    using assms(4) by (rule protocol_truthy) (simp add: colon_not_smtp)
  with assms show ?thesis
    by (simp add: mail_sender_resolved colon_not_smtp takeWhile_sep dropWhile_sep)
qed

text \<open>
  C4 (amended). For every domain specification that is a non-empty mapping without a
  \<open>protocol\<close> key, the factory hands the sender, the specification and the options to the
  built-in SMTP sender and opens it, as it does for that specification extended by
  \<open>protocol = "smtp"\<close>.
\<close>

theorem default_protocol_is_smtp:
  assumes "CHR ''@'' \<notin> set addr" and "CHR ''@'' \<notin> set domain"
    and "spec \<noteq> []" and "map_of spec (PStr ''protocol'') = None"
    and "py_get domains_conf domain PNone = Inr (PDict spec)"
    and "py_get domains_conf' domain PNone =
           Inr (PDict (AList.update (PStr ''protocol'') (PStr ''smtp'') spec))"
  shows "mail_sender imp (addr @ CHR ''@'' # domain) domains_conf kw =
           smtp_sender imp (addr @ CHR ''@'' # domain) (PDict spec) kw
       \<and> mail_sender imp (addr @ CHR ''@'' # domain) domains_conf' kw =
           smtp_sender imp (addr @ CHR ''@'' # domain)
             (PDict (AList.update (PStr ''protocol'') (PStr ''smtp'') spec)) kw"
proof
  have "py_get (PDict spec) ''protocol'' (PStr ''smtp'') = Inr (PStr ''smtp'')"
    using assms(4) by simp
  with assms show "mail_sender imp (addr @ CHR ''@'' # domain) domains_conf kw =
           smtp_sender imp (addr @ CHR ''@'' # domain) (PDict spec) kw"
    by (simp add: mail_sender_resolved)
next
  let ?spec' = "AList.update (PStr ''protocol'') (PStr ''smtp'') spec"
  have "py_get (PDict ?spec') ''protocol'' (PStr ''smtp'') = Inr (PStr ''smtp'')"
    by (simp add: update_conv')
  moreover have "truthy (PDict ?spec')"
    using assms(3) by (cases spec) auto
  ultimately show "mail_sender imp (addr @ CHR ''@'' # domain) domains_conf' kw =
           smtp_sender imp (addr @ CHR ''@'' # domain) (PDict ?spec') kw"
    using assms by (simp add: mail_sender_resolved)
qed

text \<open>The theorem at work on a domain that names its server only.\<close>

theorem default_protocol_is_smtp_witness:
  "mail_sender test_importer (''foo'' @ CHR ''@'' # ''base.com'')
      (PDict [(PStr ''base.com'', PDict [(PStr ''server'', PStr ''smtp.base.com'')])]) []
     = Inr (''smtp'', \<lparr>kwargs = [],
              domain_spec = PDict [(PStr ''server'', PStr ''smtp.base.com'')],
              user_cred_file = ''/home/user/.config/MailSender/mailsender_creds.yml'',
              user_cred_lock = ''/home/user/.config/MailSender/mailsender_creds.yml.lock'',
              user_credentials = PDict [], sender = ''foo@base.com''\<rparr>)
 \<and> mail_sender test_importer (''foo'' @ CHR ''@'' # ''base.com'')
      (PDict [(PStr ''base.com'',
               PDict [(PStr ''server'', PStr ''smtp.base.com''),
                      (PStr ''protocol'', PStr ''smtp'')])]) []
     = Inr (''smtp'', \<lparr>kwargs = [],
              domain_spec = PDict [(PStr ''server'', PStr ''smtp.base.com''),
                                   (PStr ''protocol'', PStr ''smtp'')],
              user_cred_file = ''/home/user/.config/MailSender/mailsender_creds.yml'',
              user_cred_lock = ''/home/user/.config/MailSender/mailsender_creds.yml.lock'',
              user_credentials = PDict [], sender = ''foo@base.com''\<rparr>)"
proof -
  let ?spec = "[(PStr ''server'', PStr ''smtp.base.com'')]"
  let ?conf = "PDict [(PStr ''base.com'', PDict ?spec)]"
  let ?conf' = "PDict [(PStr ''base.com'',
                  PDict [(PStr ''server'', PStr ''smtp.base.com''),
                         (PStr ''protocol'', PStr ''smtp'')])]"
  have h1: "CHR ''@'' \<notin> set ''foo''" and h2: "CHR ''@'' \<notin> set ''base.com''"
    and h3: "?spec \<noteq> []" and h4: "map_of ?spec (PStr ''protocol'') = None"
    and h5: "py_get ?conf ''base.com'' PNone = Inr (PDict ?spec)"
    and h6: "py_get ?conf' ''base.com'' PNone =
               Inr (PDict (AList.update (PStr ''protocol'') (PStr ''smtp'') ?spec))"
    by simp_all
  have s: "smtp_sender test_importer ''foo@base.com'' d [] =
             Inr (''smtp'', \<lparr>kwargs = [], domain_spec = d,
              user_cred_file = ''/home/user/.config/MailSender/mailsender_creds.yml'',
              user_cred_lock = ''/home/user/.config/MailSender/mailsender_creds.yml.lock'',
              user_credentials = PDict [], sender = ''foo@base.com''\<rparr>)" for d
    by (simp add: smtp_sender_def test_importer_def MailSender_init_def creds_file_option_def
        read_creds_file_def test_os_def empty_disk_def Let_def)
  from default_protocol_is_smtp [OF h1 h2 h3 h4 h5 h6, of test_importer "[]"] s
  show ?thesis by simp
qed

text \<open>
  C4 as stated fails on the specification's own scenario: the empty domain specification
  counts as no specification, so the domain is not recognized, while the same
  specification with \<open>protocol = "smtp"\<close> gives the SMTP sender.
\<close>

theorem empty_domain_spec_counterexample:
  "mail_sender test_importer ''foo@base.com'' (PDict [(PStr ''base.com'', PDict [])]) []
     = Inl (MailSenderException [ArgStr ''Domain base.com isn't recognized''])
   \<and> mail_sender test_importer ''foo@base.com''
       (PDict [(PStr ''base.com'', PDict [(PStr ''protocol'', PStr ''smtp'')])]) []
     = Inr (''smtp'',
        \<lparr>kwargs = [], domain_spec = PDict [(PStr ''protocol'', PStr ''smtp'')],
         user_cred_file = ''/home/user/.config/MailSender/mailsender_creds.yml'',
         user_cred_lock = ''/home/user/.config/MailSender/mailsender_creds.yml.lock'',
         user_credentials = PDict [], sender = ''foo@base.com''\<rparr>)"
  by code_simp

text \<open>
  C5 (amended). For every non-empty sender address that has no \<open>@\<close> or more than one, the
  factory fails, whatever the domain table: unpacking the split raises \<open>ValueError\<close>, which
  is no \<open>MailSenderException\<close>.
\<close>

theorem invalid_address_ValueError:
  assumes "sndr \<noteq> []" and "count_list sndr CHR ''@'' \<noteq> 1"
  shows "mail_sender imp sndr domains_conf kw = Inl ValueError
       \<and> \<not> is_MailSenderException ValueError"
  using assms py_split_not_pair [of sndr]
  by (simp add: mail_sender_def unpack_ValueError)

theorem invalid_address_ValueError_witness:
  "count_list ''a@b@c.org'' CHR ''@'' = 2
 \<and> mail_sender test_importer ''a@b@c.org''
      (PDict [(PStr ''c.org'', PDict [(PStr ''server'', PStr ''smtp.c.org'')])]) []
     = Inl ValueError
 \<and> count_list ''foo'' CHR ''@'' = 0
 \<and> mail_sender test_importer ''foo''
      (PDict [(PStr ''c.org'', PDict [(PStr ''server'', PStr ''smtp.c.org'')])]) []
     = Inl ValueError"
proof -
  have n: "''a@b@c.org'' \<noteq> []" "''foo'' \<noteq> []"
    by simp_all
  have c2: "count_list ''a@b@c.org'' CHR ''@'' = 2" and c0: "count_list ''foo'' CHR ''@'' = 0"
    by simp_all
  then have ne: "count_list ''a@b@c.org'' CHR ''@'' \<noteq> 1" "count_list ''foo'' CHR ''@'' \<noteq> 1"
    by simp_all
  let ?conf = "PDict [(PStr ''c.org'', PDict [(PStr ''server'', PStr ''smtp.c.org'')])]"
  from invalid_address_ValueError [OF n(1) ne(1), of test_importer ?conf "[]"]
    invalid_address_ValueError [OF n(2) ne(2), of test_importer ?conf "[]"] c2 c0
  show ?thesis by simp
qed

text \<open>
  C5 as stated fails: an address without \<open>@\<close> makes the factory fail with \<open>ValueError\<close>,
  not with an exception of the module.
\<close>

theorem invalid_address_counterexample:
  "mail_sender test_importer ''foo''
      (PDict [(PStr ''base.com'', PDict [(PStr ''protocol'', PStr ''smtp'')])]) []
     = Inl ValueError
   \<and> mail_sender test_importer ''foo@bar@base.com''
      (PDict [(PStr ''base.com'', PDict [(PStr ''protocol'', PStr ''smtp'')])]) []
     = Inl ValueError
   \<and> \<not> is_MailSenderException ValueError"
  by code_simp

text \<open>
  What the \<open>except\<close> clause covers: a module that is looked for and not found, a module
  without the attribute, and an object that is no \<open>MailSender\<close>.
\<close>

lemma extension_wrapped:
  assumes "CHR ''@'' \<notin> set addr" and "CHR ''@'' \<notin> set domain"
    and "py_get domains_conf domain PNone = Inr dspec"
    and "py_get dspec ''protocol'' (PStr ''smtp'') = Inr (PStr (m @ CHR '':'' # c))"
    and "CHR '':'' \<notin> set m" and "m \<noteq> []" and "hd m \<noteq> CHR ''.''"
  shows "(find_and_load imp m = Inl ModuleNotFoundError \<longrightarrow>
            mail_sender imp (addr @ CHR ''@'' # domain) domains_conf kw =
              Inl (MailSenderUnsupportedException
                     [ArgErr ModuleNotFoundError,
                      ArgStr (m @ '':'' @ c @ '' for email domain '' @ domain @ '' unknown)'')]))
       \<and> (\<forall>modl. find_and_load imp m = Inr modl \<and> modl c = None \<longrightarrow>
            mail_sender imp (addr @ CHR ''@'' # domain) domains_conf kw =
              Inl (MailSenderUnsupportedException
                     [ArgErr AttributeError,
                      ArgStr (m @ '':'' @ c @ '' for email domain '' @ domain @ '' unknown)'')]))
       \<and> (\<forall>modl cls inst. find_and_load imp m = Inr modl \<and> modl c = Some cls
             \<and> cls (addr @ CHR ''@'' # domain) dspec kw = Inr inst \<and> \<not> is_MailSender inst \<longrightarrow>
            mail_sender imp (addr @ CHR ''@'' # domain) domains_conf kw =
              Inl (MailSenderException
                     [ArgStr (m @ '':'' @ c @ '' for '' @ domain @ '' is not a MailSender'')]))"
  unfolding mail_sender_extension [OF assms(1-5)]
  using assms(6,7) by (simp add: load_extension_def try_extension_def import_module_def)

text \<open>
  What it does not cover: a module part that is empty or starts with a dot is never looked
  for, \<open>importlib\<close> raises \<open>ValueError\<close> or \<open>TypeError\<close> at once and the factory lets it
  through.
\<close>

lemma extension_not_wrapped:
  assumes "CHR ''@'' \<notin> set addr" and "CHR ''@'' \<notin> set domain"
    and "py_get domains_conf domain PNone = Inr dspec"
    and "py_get dspec ''protocol'' (PStr ''smtp'') = Inr (PStr (m @ CHR '':'' # c))"
    and "CHR '':'' \<notin> set m"
  shows "(m = [] \<longrightarrow>
            mail_sender imp (addr @ CHR ''@'' # domain) domains_conf kw = Inl ValueError)
       \<and> (m \<noteq> [] \<and> hd m = CHR ''.'' \<longrightarrow>
            mail_sender imp (addr @ CHR ''@'' # domain) domains_conf kw = Inl TypeError)"
  unfolding mail_sender_extension [OF assms]
  by (simp add: load_extension_def try_extension_def import_module_def)

text \<open>
  C6, where the code departs from it. The protocol \<open>.nope:Sender\<close> names a module that
  cannot be resolved, and so does \<open>:Sender\<close>. The factory does not fail with
  \<open>MailSenderUnsupportedException\<close>: the \<open>TypeError\<close> and the \<open>ValueError\<close> of \<open>importlib\<close>
  are not among the exceptions its \<open>except\<close> clause wraps, and neither is a
  \<open>MailSenderException\<close>. A module that is looked for and not found is wrapped, as the claim
  says.
\<close>

theorem unresolved_module_not_wrapped:
  "mail_sender test_importer ''foo@bad.server''
      (PDict [(PStr ''bad.server'', PDict [(PStr ''protocol'', PStr ''.nope:Sender'')])]) []
     = Inl TypeError
 \<and> mail_sender test_importer ''foo@bad.server''
      (PDict [(PStr ''bad.server'', PDict [(PStr ''protocol'', PStr '':Sender'')])]) []
     = Inl ValueError
 \<and> \<not> is_MailSenderException TypeError \<and> \<not> is_MailSenderException ValueError
 \<and> mail_sender test_importer ''foo@bad.server''
      (PDict [(PStr ''bad.server'', PDict [(PStr ''protocol'', PStr ''nope:Sender'')])]) []
     = Inl (MailSenderUnsupportedException
              [ArgErr ModuleNotFoundError,
               ArgStr ''nope:Sender for email domain bad.server unknown)''])"
  by code_simp

text \<open>
  C7. For a sender whose domain has a specification with a protocol string that is not
  \<open>smtp\<close> and has no colon, the factory fails with the \<open>MailSenderException\<close> that no
  implementation is specified for the domain.
\<close>

theorem no_implementation:
  assumes "CHR ''@'' \<notin> set addr" and "CHR ''@'' \<notin> set domain"
    and "py_get domains_conf domain PNone = Inr dspec"
    and "py_get dspec ''protocol'' (PStr ''smtp'') = Inr (PStr p)"
    and "p \<noteq> ''smtp''" and "CHR '':'' \<notin> set p"
  shows "mail_sender imp (addr @ CHR ''@'' # domain) domains_conf kw =
           Inl (MailSenderException
                  [ArgStr (''No implementation specified for domain '' @ domain)])"
proof -
  have "truthy dspec"
    using assms(4,5) by (auto intro: protocol_truthy)
  with assms show ?thesis
    by (simp add: mail_sender_resolved)
qed

text \<open>The scenario of the specification: the protocol \<open>nope\<close> for \<open>bad.server\<close>.\<close>

theorem no_implementation_witness:
  "py_get (PDict [(PStr ''protocol'', PStr ''nope'')]) ''protocol'' (PStr ''smtp'')
     = Inr (PStr ''nope'')
 \<and> mail_sender test_importer (''foo'' @ CHR ''@'' # ''bad.server'')
      (PDict [(PStr ''bad.server'', PDict [(PStr ''protocol'', PStr ''nope'')])]) []
     = Inl (MailSenderException [ArgStr ''No implementation specified for domain bad.server''])"
proof -
  let ?d = "PDict [(PStr ''protocol'', PStr ''nope'')]"
  have a: "CHR ''@'' \<notin> set ''foo''" and b: "CHR ''@'' \<notin> set ''bad.server''"
    and g: "py_get (PDict [(PStr ''bad.server'', ?d)]) ''bad.server'' PNone = Inr ?d"
    and p: "py_get ?d ''protocol'' (PStr ''smtp'') = Inr (PStr ''nope'')"
    and n: "''nope'' \<noteq> ''smtp''" and c: "CHR '':'' \<notin> set ''nope''"
    by simp_all
  from no_implementation [OF a b g p n c, of test_importer "[]"] p
  show ?thesis by simp
qed

end
